theory Spec2Isabelle
  imports Complex_Main "HOL-Library.Product_Lexorder" "HOL-Library.Multiset"
begin

section \<open>The table of usage entries\<close>

text \<open>
  The schema of \<^verbatim>\<open>database.initialize_database\<close>:
  \<^verbatim>\<open>
  CREATE TABLE IF NOT EXISTS usage_log (
      entry_id INT AUTO_INCREMENT PRIMARY KEY,
      entry_date DATE NOT NULL,
      category VARCHAR(50) NOT NULL,
      hours_spent FLOAT NOT NULL,
      remarks TEXT,
      created_at TIMESTAMP DEFAULT CURRENT_TIMESTAMP, ...)
  \<close>
  A calendar date is the triple (year, month, day); Python's \<^verbatim>\<open>date\<close> and MySQL's
  \<^verbatim>\<open>DATE\<close> compare such triples lexicographically, which is the order
  that the theory Product_Lexorder of the library gives to products. Hours are exact
  rationals: the rounding of the engine's \<^verbatim>\<open>FLOAT\<close> column is outside the model, and so are the width of
  \<^verbatim>\<open>VARCHAR(50)\<close> and the range of \<^verbatim>\<open>INT\<close>. No statement of the program reads
  \<^verbatim>\<open>created_at\<close>, so the column is left out.
\<close>

type_synonym date = "nat \<times> nat \<times> nat"

record usage_row =
  entry_id :: int
  entry_date :: date
  category :: string
  hours_spent :: rat
  remarks :: string

text \<open>
  The server is part of the state: it may refuse the connection, or accept it and fail
  the statement. The table keeps its rows in insertion order, and the counter holds the
  id that the next \<^verbatim>\<open>INSERT\<close> receives.
\<close>

datatype server_status = Up | Unreachable | QueryFails

record database =
  status :: server_status
  usage_log :: "usage_row list"
  auto_increment :: int

text \<open>
  An exception that leaves a function of \<^verbatim>\<open>database.py\<close>: the one raised by
  \<^verbatim>\<open>get_connection\<close>, or the one that reports a failed statement.
\<close>

datatype py_exception = Database_connection_error | Query_error

definition initial_database :: database where
  "initial_database = \<lparr>status = Up, usage_log = [], auto_increment = 1\<rparr>"

section \<open>SQL statements\<close>

text \<open>\<^verbatim>\<open>INSERT INTO usage_log (entry_date, category, hours_spent, remarks) VALUES (...)\<close>\<close>

definition sql_insert :: "date \<times> string \<times> rat \<times> string \<Rightarrow> database \<Rightarrow> database" where
  "sql_insert v db =
     (case v of (d, c, h, r) \<Rightarrow>
        db\<lparr>usage_log := usage_log db @
              [\<lparr>entry_id = auto_increment db, entry_date = d, category = c,
                hours_spent = h, remarks = r\<rparr>],
           auto_increment := auto_increment db + 1\<rparr>)"

text \<open>\<^verbatim>\<open>DELETE FROM usage_log WHERE entry_id = %s\<close>, with the count of affected rows.\<close>

definition sql_delete :: "int \<Rightarrow> database \<Rightarrow> nat \<times> database" where
  "sql_delete i db =
     (length (filter (\<lambda>e. entry_id e = i) (usage_log db)),
      db\<lparr>usage_log := filter (\<lambda>e. entry_id e \<noteq> i) (usage_log db)\<rparr>)"

text \<open>
  \<^verbatim>\<open>GROUP BY key\<close> with \<^verbatim>\<open>SUM(val)\<close>: one scan of the rows, which adds each value
  to the running total of its group and opens a new group for a key not seen before.
\<close>

fun add_to_group :: "'k \<Rightarrow> rat \<Rightarrow> ('k \<times> rat) list \<Rightarrow> ('k \<times> rat) list" where
  "add_to_group k v [] = [(k, v)]"
| "add_to_group k v ((k', t) # gs) =
     (if k' = k then (k', t + v) # gs else (k', t) # add_to_group k v gs)"

definition group_sum :: "('r \<Rightarrow> 'k) \<Rightarrow> ('r \<Rightarrow> rat) \<Rightarrow> 'r list \<Rightarrow> ('k \<times> rat) list" where
  "group_sum key val rs = fold (\<lambda>r gs. add_to_group (key r) (val r) gs) rs []"

text \<open>
  \<^verbatim>\<open>ORDER BY k\<close> and \<^verbatim>\<open>ORDER BY k DESC\<close>. SQL leaves the order of rows with equal keys
  open; the model sorts stably and, for \<^verbatim>\<open>DESC\<close>, reverses.
\<close>

definition order_by :: "('r \<Rightarrow> 'k::linorder) \<Rightarrow> 'r list \<Rightarrow> 'r list" where
  "order_by k rs = sort_key k rs"

definition order_by_desc :: "('r \<Rightarrow> 'k::linorder) \<Rightarrow> 'r list \<Rightarrow> 'r list" where
  "order_by_desc k rs = rev (sort_key k rs)"

text \<open>The aggregates \<^verbatim>\<open>SUM\<close>, \<^verbatim>\<open>AVG\<close>, \<^verbatim>\<open>MIN\<close>, \<^verbatim>\<open>MAX\<close>: \<^verbatim>\<open>NULL\<close> over no rows.\<close>

definition sql_sum :: "rat list \<Rightarrow> rat option" where
  "sql_sum xs = (if xs = [] then None else Some (sum_list xs))"

definition sql_avg :: "rat list \<Rightarrow> rat option" where
  "sql_avg xs = (if xs = [] then None else Some (sum_list xs / of_nat (length xs)))"

fun sql_min :: "'a::linorder list \<Rightarrow> 'a option" where
  "sql_min [] = None"
| "sql_min (x # xs) = Some (fold min xs x)"

fun sql_max :: "'a::linorder list \<Rightarrow> 'a option" where
  "sql_max [] = None"
| "sql_max (x # xs) = Some (fold max xs x)"

text \<open>Python's \<^verbatim>\<open>x or 0\<close> on a fetched number: \<^verbatim>\<open>None\<close> and zero are both falsy.\<close>

definition or_0 :: "rat option \<Rightarrow> rat" where
  "or_0 x = (case x of None \<Rightarrow> 0 | Some v \<Rightarrow> if v = 0 then 0 else v)"

section \<open>database.py\<close>

definition get_connection :: "database \<Rightarrow> py_exception + unit" where
  "get_connection db =
     (if status db = Unreachable then Inl Database_connection_error else Inr ())"

text \<open>
  \<^verbatim>\<open>add_entry\<close> opens the connection outside the reach of its handler (the handler
  catches the connector's \<^verbatim>\<open>Error\<close>, \<^verbatim>\<open>get_connection\<close> raises \<^verbatim>\<open>Exception\<close>), runs the
  \<^verbatim>\<open>INSERT\<close> and returns a pair of a flag and a message. It checks none of its arguments.
\<close>

definition add_entry ::
  "date \<Rightarrow> string \<Rightarrow> rat \<Rightarrow> string \<Rightarrow> database \<Rightarrow> (py_exception + bool \<times> string) \<times> database" where
  "add_entry d c h r db =
     (case get_connection db of
        Inl e \<Rightarrow> (Inl e, db)
      | Inr _ \<Rightarrow>
          if status db = QueryFails then (Inr (False, ''Error adding entry''), db)
          else (Inr (True, ''Entry added successfully!''), sql_insert (d, c, h, r) db))"

text \<open>
  \<^verbatim>\<open>pd.read_sql(query, conn)\<close> on an open connection: the rows of the query, or an
  exception. The connection is closed afterwards and nothing is committed.
\<close>

definition read_sql ::
  "(usage_row list \<Rightarrow> 'a) \<Rightarrow> database \<Rightarrow> (py_exception + 'a) \<times> database" where
  "read_sql q db =
     (case get_connection db of
        Inl e \<Rightarrow> (Inl e, db)
      | Inr _ \<Rightarrow>
          if status db = QueryFails then (Inl Query_error, db)
          else (Inr (q (usage_log db)), db))"

text \<open>\<^verbatim>\<open>SELECT ... FROM usage_log ORDER BY entry_date DESC, entry_id DESC\<close>\<close>

definition get_all_entries :: "database \<Rightarrow> (py_exception + usage_row list) \<times> database" where
  "get_all_entries db =
     read_sql (order_by_desc (\<lambda>e. (entry_date e, entry_id e))) db"

text \<open>\<^verbatim>\<open>SELECT ... WHERE entry_date BETWEEN %s AND %s ORDER BY entry_date DESC\<close>\<close>

definition get_date_range_entries ::
  "date \<Rightarrow> date \<Rightarrow> database \<Rightarrow> (py_exception + usage_row list) \<times> database" where
  "get_date_range_entries start_date end_date db =
     read_sql (\<lambda>rs. order_by_desc entry_date
                 (filter (\<lambda>e. start_date \<le> entry_date e \<and> entry_date e \<le> end_date) rs)) db"

text \<open>\<^verbatim>\<open>SELECT entry_date, SUM(hours_spent) ... GROUP BY entry_date ORDER BY entry_date\<close>\<close>

definition get_daily_totals :: "database \<Rightarrow> (py_exception + (date \<times> rat) list) \<times> database" where
  "get_daily_totals db =
     read_sql (\<lambda>rs. order_by fst (group_sum entry_date hours_spent rs)) db"

text \<open>\<^verbatim>\<open>SELECT category, SUM(hours_spent) ... GROUP BY category ORDER BY total_hours DESC\<close>\<close>

definition get_category_totals ::
  "database \<Rightarrow> (py_exception + (string \<times> rat) list) \<times> database" where
  "get_category_totals db =
     read_sql (\<lambda>rs. order_by_desc snd (group_sum category hours_spent rs)) db"

record statistics =
  total_hours :: rat
  total_entries :: int
  avg_daily_hours :: rat
  first_date :: "date option"
  last_date :: "date option"

text \<open>
  \<^verbatim>\<open>get_statistics\<close> runs four queries on one cursor: the sum of all hours, the row
  count, the average of the per-date sums, and the least and greatest date.
\<close>

definition get_statistics :: "database \<Rightarrow> (py_exception + statistics) \<times> database" where
  "get_statistics db =
     (case get_connection db of
        Inl e \<Rightarrow> (Inl e, db)
      | Inr _ \<Rightarrow>
          if status db = QueryFails then (Inl Query_error, db)
          else
            let rs = usage_log db;
                total = or_0 (sql_sum (map hours_spent rs));
                count = int (length rs);
                avg_daily = or_0 (sql_avg (map snd (group_sum entry_date hours_spent rs)))
            in (Inr \<lparr>total_hours = total, total_entries = count,
                      avg_daily_hours = avg_daily,
                      first_date = sql_min (map entry_date rs),
                      last_date = sql_max (map entry_date rs)\<rparr>, db))"

definition delete_entry :: "int \<Rightarrow> database \<Rightarrow> (py_exception + bool \<times> string) \<times> database" where
  "delete_entry i db =
     (case get_connection db of
        Inl e \<Rightarrow> (Inl e, db)
      | Inr _ \<Rightarrow>
          if status db = QueryFails then (Inr (False, ''Error deleting entry''), db)
          else
            (case sql_delete i db of (affected, db') \<Rightarrow>
               if affected > 0 then (Inr (True, ''Entry deleted successfully!''), db')
               else (Inr (False, ''Entry not found.''), db')))"

section \<open>The script add-entry\<close>

text \<open>
  The command-line script reads four lines. Parsing a date and a number is the work of
  Python's library, so the model takes its outcome: a date line is blank, parses, or
  does not; an hours line parses to a number or does not. The category and the remarks
  are the lines after \<^verbatim>\<open>strip()\<close>. A rejected input prints a message and returns
  \<^verbatim>\<open>None\<close>, here the message on the left.
\<close>

datatype date_line = Blank | Parsed date | Malformed

definition prompt_entry ::
  "date \<Rightarrow> date_line \<Rightarrow> string \<Rightarrow> rat option \<Rightarrow> string
     \<Rightarrow> string + date \<times> string \<times> rat \<times> string" where
  "prompt_entry today date_str category_str hours_str remarks_str =
     (case (case date_str of Blank \<Rightarrow> Some today | Parsed d \<Rightarrow> Some d | Malformed \<Rightarrow> None) of
        None \<Rightarrow> Inl ''Invalid date format. Use YYYY-MM-DD.''
      | Some d \<Rightarrow>
          if category_str = [] then Inl ''Category cannot be empty.''
          else (case hours_str of
                  None \<Rightarrow> Inl ''Invalid number for hours.''
                | Some hours \<Rightarrow>
                    if hours < 0 \<or> hours > 24 then Inl ''Hours should be between 0 and 24.''
                    else Inr (d, category_str, hours, remarks_str)))"

text \<open>\<^verbatim>\<open>insert_entry\<close> connects inside its handler: every failure prints and changes nothing.\<close>

definition insert_entry :: "date \<times> string \<times> rat \<times> string \<Rightarrow> database \<Rightarrow> string \<times> database" where
  "insert_entry entry db =
     (if status db = Up then (''Record inserted successfully.'', sql_insert entry db)
      else (''Database error:'', db))"

text \<open>The script's main block: \<^verbatim>\<open>entry = prompt_entry(); if entry: insert_entry(entry)\<close>\<close>

definition add_entry_main ::
  "date \<Rightarrow> date_line \<Rightarrow> string \<Rightarrow> rat option \<Rightarrow> string \<Rightarrow> database \<Rightarrow> string \<times> database" where
  "add_entry_main today date_str category_str hours_str remarks_str db =
     (case prompt_entry today date_str category_str hours_str remarks_str of
        Inl msg \<Rightarrow> (msg, db)
      | Inr entry \<Rightarrow> insert_entry entry db)"

section \<open>The web form of app.py\<close>

text \<open>
  The form's widgets bound what can be submitted: the hours come from a number field
  with \<^verbatim>\<open>min_value=0.0, max_value=24.0\<close> and the category from a fixed list of non-empty
  labels. On submission the handler turns away hours that are not positive and passes
  everything else to \<^verbatim>\<open>db.add_entry\<close>; it shows a success or an error banner.
\<close>

datatype banner = Success_shown string | Error_shown string

definition show_add_entry ::
  "date \<Rightarrow> string \<Rightarrow> rat \<Rightarrow> string \<Rightarrow> database \<Rightarrow> (py_exception + banner) \<times> database" where
  "show_add_entry d c h r db =
     (if h \<le> 0
      then (Inr (Error_shown ''Please enter a valid number of hours (greater than 0).''), db)
      else (case add_entry d c h r db of
              (Inl e, db') \<Rightarrow> (Inl e, db')
            | (Inr (success, message), db') \<Rightarrow>
                (Inr (if success then Success_shown message else Error_shown message), db')))"

section \<open>Stores the program can produce\<close>

text \<open>
  Every row enters the table through the \<^verbatim>\<open>INSERT\<close> above and leaves it through the
  \<^verbatim>\<open>DELETE\<close>; the server may change its status at any time.
\<close>

inductive reachable :: "database \<Rightarrow> bool" where
  reachable_initial: "reachable initial_database"
| reachable_insert: "reachable db \<Longrightarrow> reachable (sql_insert v db)"
| reachable_delete: "reachable db \<Longrightarrow> reachable (snd (sql_delete i db))"
| reachable_status: "reachable db \<Longrightarrow> reachable (db\<lparr>status := s\<rparr>)"

definition ids_below_counter :: "database \<Rightarrow> bool" where
  "ids_below_counter db = list_all (\<lambda>e. entry_id e < auto_increment db) (usage_log db)"

text \<open>The store of the example: three entries on two dates.\<close>

definition example_store :: database where
  "example_store =
     snd (add_entry (2025, 11, 2) ''Gaming'' 4 ''''
       (snd (add_entry (2025, 11, 1) ''Social Media'' 2 ''''
         (snd (add_entry (2025, 11, 1) ''Study'' (7 / 2) '''' initial_database)))))"

section \<open>Grouping: one group per key, holding the sum of its rows\<close>

lemma keys_add_to_group: "fst ` set (add_to_group k v gs) = insert k (fst ` set gs)"
  by (induction k v gs rule: add_to_group.induct) auto

lemma distinct_add_to_group:
  "distinct (map fst gs) \<Longrightarrow> distinct (map fst (add_to_group k v gs))"
proof (induction gs)
  case Nil
  then show ?case by simp
next
  case (Cons g gs)
  obtain k' t where g: "g = (k', t)" by (cases g)
  have "k' \<noteq> k \<Longrightarrow> k' \<notin> fst ` set (add_to_group k v gs)"
    using Cons.prems g by (simp add: keys_add_to_group)
  with Cons g show ?case by auto
qed

lemma map_of_add_to_group:
  "map_of (add_to_group k v gs) k' =
     (if k' = k then Some (case map_of gs k of None \<Rightarrow> v | Some t \<Rightarrow> t + v) else map_of gs k')"
  by (induction gs) auto


lemma keys_fold_group:
  "fst ` set (fold (\<lambda>r. add_to_group (key r) (val r)) rs gs) = key ` set rs \<union> fst ` set gs"
  by (induction rs arbitrary: gs) (auto simp: keys_add_to_group)

lemma distinct_fold_group:
  "distinct (map fst gs) \<Longrightarrow> distinct (map fst (fold (\<lambda>r. add_to_group (key r) (val r)) rs gs))"
  by (induction rs arbitrary: gs) (auto simp: distinct_add_to_group)

lemma map_of_fold_group:
  "map_of (fold (\<lambda>r. add_to_group (key r) (val r)) rs gs) k =
     (if k \<in> key ` set rs \<union> fst ` set gs
      then Some ((case map_of gs k of None \<Rightarrow> 0 | Some t \<Rightarrow> t)
                 + sum_list (map val (filter (\<lambda>r. key r = k) rs)))
      else None)"
proof (induction rs arbitrary: gs)
  case Nil
  show ?case by (simp add: map_of_eq_None_iff split: option.splits)
next
  case (Cons r rs)
  have dom: "\<And>gs'. (map_of gs' k = None) = (k \<notin> fst ` set gs')"
    by (simp add: map_of_eq_None_iff)
  show ?case
    by (simp add: Cons.IH map_of_add_to_group keys_add_to_group dom split: option.splits)
qed


lemma keys_group_sum: "fst ` set (group_sum key val rs) = key ` set rs"
  by (simp add: group_sum_def keys_fold_group)

lemma distinct_group_sum: "distinct (map fst (group_sum key val rs))"
  by (simp add: group_sum_def distinct_fold_group)

lemma group_sum_value:
  assumes "(k, t) \<in> set (group_sum key val rs)"
  shows "t = sum_list (map val (filter (\<lambda>r. key r = k) rs))"
proof -
  have "map_of (group_sum key val rs) k = Some t"
    using assms distinct_group_sum by (rule_tac map_of_is_SomeI) auto
  then show ?thesis
    by (simp add: group_sum_def map_of_fold_group split: if_splits)
qed


section \<open>The functions when the server answers\<close>

lemma read_sql_Up: "status db = Up \<Longrightarrow> read_sql q db = (Inr (q (usage_log db)), db)"
  by (simp add: read_sql_def get_connection_def)

lemma snd_read_sql: "snd (read_sql q db) = db"
  by (simp add: read_sql_def get_connection_def split: sum.splits)

lemma or_0_sql_sum: "or_0 (sql_sum xs) = sum_list xs"
  by (simp add: or_0_def sql_sum_def)

lemma or_0_sql_avg:
  "or_0 (sql_avg xs) = (if xs = [] then 0 else sum_list xs / of_nat (length xs))"
  by (simp add: or_0_def sql_avg_def)

lemma get_statistics_Up:
  "status db = Up \<Longrightarrow>
   fst (get_statistics db) =
     Inr \<lparr>total_hours = sum_list (map hours_spent (usage_log db)),
          total_entries = int (length (usage_log db)),
          avg_daily_hours =
            (let g = group_sum entry_date hours_spent (usage_log db)
             in if g = [] then 0 else sum_list (map snd g) / of_nat (length g)),
          first_date = sql_min (map entry_date (usage_log db)),
          last_date = sql_max (map entry_date (usage_log db))\<rparr>"
  by (simp add: get_statistics_def get_connection_def or_0_sql_sum or_0_sql_avg Let_def)

lemma sum_list_order_by:
  fixes f :: "'r \<Rightarrow> rat"
  shows "sum_list (map f (order_by k xs)) = sum_list (map f xs)"
proof -
  have "sum_mset (mset (map f (order_by k xs))) = sum_mset (mset (map f xs))"
    by (simp add: order_by_def)
  then show ?thesis
    by (simp only: sum_mset_sum_list)
qed

lemma lex_pair_le:
  "((a::'a::linorder), (i::'b::linorder)) \<le> (b, j) \<longleftrightarrow> a < b \<or> (a = b \<and> i \<le> j)"
  by (auto simp: less_eq_prod_def)

lemma sorted_order_by: "sorted (map k (order_by k xs))"
  by (simp add: order_by_def)

lemma sorted_order_by_desc: "sorted_wrt (\<lambda>x y. k y \<le> k x) (order_by_desc k xs)"
proof -
  have "sorted_wrt (\<lambda>x y. k x \<le> k y) (sort_key k xs)"
    using sorted_sort_key[of k xs] by (simp add: sorted_wrt_map)
  then show ?thesis
    by (simp add: order_by_desc_def sorted_wrt_rev)
qed

lemma mset_order_by_desc: "mset (order_by_desc k xs) = mset xs"
  by (simp add: order_by_desc_def)

lemma add_entry_Up:
  "status db = Up \<Longrightarrow>
   add_entry d c h r db = (Inr (True, ''Entry added successfully!''), sql_insert (d, c, h, r) db)"
  by (simp add: add_entry_def get_connection_def)

lemma delete_entry_Up:
  assumes "status db = Up"
  shows "delete_entry i db =
     (Inr (if i \<in> entry_id ` set (usage_log db) then (True, ''Entry deleted successfully!'')
           else (False, ''Entry not found.'')),
      db\<lparr>usage_log := filter (\<lambda>e. entry_id e \<noteq> i) (usage_log db)\<rparr>)"
proof -
  have "length (filter (\<lambda>e. entry_id e = i) (usage_log db)) > 0 \<longleftrightarrow>
          i \<in> entry_id ` set (usage_log db)"
    by (auto simp: length_greater_0_conv filter_empty_conv simp del: length_0_conv)
  with assms show ?thesis
    by (simp add: delete_entry_def get_connection_def sql_delete_def)
qed

lemma usage_log_sql_insert:
  "usage_log (sql_insert (d, c, h, r) db) =
     usage_log db @ [\<lparr>entry_id = auto_increment db, entry_date = d, category = c,
                       hours_spent = h, remarks = r\<rparr>]"
  by (simp add: sql_insert_def)

lemma status_sql_insert: "status (sql_insert v db) = status db"
  by (cases v) (simp add: sql_insert_def)

text \<open>
  The ids of the rows stay below the counter: the table starts empty, an insertion uses
  the counter and then raises it, and a deletion only removes rows.
\<close>

lemma ids_below_counter_initial: "ids_below_counter initial_database"
  by (simp add: ids_below_counter_def initial_database_def)

lemma ids_below_counter_insert:
  "ids_below_counter db \<Longrightarrow> ids_below_counter (sql_insert v db)"
  by (cases v) (auto simp: ids_below_counter_def sql_insert_def list_all_iff)

lemma ids_below_counter_delete:
  "ids_below_counter db \<Longrightarrow> ids_below_counter (snd (sql_delete i db))"
  by (auto simp: ids_below_counter_def sql_delete_def list_all_iff)

lemma reachable_ids_below_counter: "reachable db \<Longrightarrow> ids_below_counter db"
proof (induction rule: reachable.induct)
  case reachable_initial
  show ?case by (rule ids_below_counter_initial)
next
  case (reachable_insert db v)
  then show ?case by (simp add: ids_below_counter_insert)
next
  case (reachable_delete db i)
  then show ?case by (simp add: ids_below_counter_delete)
next
  case (reachable_status db s)
  then show ?case by (simp add: ids_below_counter_def)
qed

section \<open>The store of the example, evaluated\<close>

lemma example_store_Up: "status example_store = Up"
  by code_simp

lemma example_daily_totals:
  "fst (get_daily_totals example_store) = Inr [((2025, 11, 1), 11 / 2), ((2025, 11, 2), 4)]"
  by code_simp


lemma example_statistics:
  "fst (get_statistics example_store) =
     Inr \<lparr>total_hours = 19 / 2, total_entries = 3, avg_daily_hours = 19 / 4,
          first_date = Some (2025, 11, 1), last_date = Some (2025, 11, 2)\<rparr>"
  by code_simp

lemma example_usage_log:
  "usage_log example_store =
     [\<lparr>entry_id = 1, entry_date = (2025, 11, 1), category = ''Study'',
       hours_spent = 7 / 2, remarks = ''''\<rparr>,
      \<lparr>entry_id = 2, entry_date = (2025, 11, 1), category = ''Social Media'',
       hours_spent = 2, remarks = ''''\<rparr>,
      \<lparr>entry_id = 3, entry_date = (2025, 11, 2), category = ''Gaming'',
       hours_spent = 4, remarks = ''''\<rparr>]"
  by code_simp

lemma example_all_entries:
  "fst (get_all_entries example_store) =
     Inr [\<lparr>entry_id = 3, entry_date = (2025, 11, 2), category = ''Gaming'',
           hours_spent = 4, remarks = ''''\<rparr>,
          \<lparr>entry_id = 2, entry_date = (2025, 11, 1), category = ''Social Media'',
           hours_spent = 2, remarks = ''''\<rparr>,
          \<lparr>entry_id = 1, entry_date = (2025, 11, 1), category = ''Study'',
           hours_spent = 7 / 2, remarks = ''''\<rparr>]"
  by code_simp

lemma example_range_entries:
  "fst (get_date_range_entries (2025, 11, 1) (2025, 11, 1) example_store) =
     Inr [\<lparr>entry_id = 2, entry_date = (2025, 11, 1), category = ''Social Media'',
           hours_spent = 2, remarks = ''''\<rparr>,
          \<lparr>entry_id = 1, entry_date = (2025, 11, 1), category = ''Study'',
           hours_spent = 7 / 2, remarks = ''''\<rparr>]"
  by code_simp

lemma example_ids_below_counter: "ids_below_counter example_store"
  by code_simp

lemma example_auto_increment: "auto_increment example_store = 4"
  by code_simp

section \<open>Adding an entry\<close>

text \<open>
  Claim C1, as stated: \<^verbatim>\<open>addEntry\<close> fails with a validation error when the hours lie
  outside [0, 24] or the category is empty, and leaves the store unchanged. It does
  not hold of \<^verbatim>\<open>database.add_entry\<close>: on the empty store, 25 hours are stored and the
  call reports success, and so is an entry with an empty category.
\<close>

theorem add_entry_out_of_range_counterexample:
  "fst (add_entry (2025, 11, 1) ''Study'' 25 '''' initial_database) =
     Inr (True, ''Entry added successfully!'') \<and>
   usage_log (snd (add_entry (2025, 11, 1) ''Study'' 25 '''' initial_database)) =
     [\<lparr>entry_id = 1, entry_date = (2025, 11, 1), category = ''Study'',
       hours_spent = 25, remarks = ''''\<rparr>] \<and>
   fst (add_entry (2025, 11, 1) '''' 1 '''' initial_database) =
     Inr (True, ''Entry added successfully!'') \<and>
   usage_log (snd (add_entry (2025, 11, 1) '''' 1 '''' initial_database)) =
     [\<lparr>entry_id = 1, entry_date = (2025, 11, 1), category = '''',
       hours_spent = 1, remarks = ''''\<rparr>] \<and>
   usage_log initial_database = []"
  by (simp add: add_entry_def get_connection_def initial_database_def sql_insert_def)

text \<open>
  Claim C1, amended. \<^verbatim>\<open>database.add_entry\<close> checks nothing: whenever the server
  executes the statement, it appends the entry under the next id of the counter, whatever
  the hours and the category, and returns the pair of \<^verbatim>\<open>True\<close> and a message, not the
  id. The checks are made by the callers, before anything is stored. The command-line
  script's \<^verbatim>\<open>prompt_entry\<close> rejects an empty category and hours outside [0, 24], and the
  store is then unchanged; for a date line that is blank or parses, a non-empty category
  and hours within [0, 24] the script stores the entry. The web form turns away hours
  that are not positive. So 25 hours are rejected by the script and stored by
  \<^verbatim>\<open>add_entry\<close>; 0 hours are stored by both and turned away by the web form.
\<close>

theorem add_entry_stores_unchecked_prompt_entry_checks:
  "(status db = Up \<longrightarrow>
      fst (add_entry d c h r db) = Inr (True, ''Entry added successfully!'') \<and>
      usage_log (snd (add_entry d c h r db)) =
        usage_log db @ [\<lparr>entry_id = auto_increment db, entry_date = d, category = c,
                          hours_spent = h, remarks = r\<rparr>]) \<and>
   (c = [] \<or> h < 0 \<or> 24 < h \<longrightarrow>
      (\<exists>msg. prompt_entry today date_str c (Some h) r = Inl msg) \<and>
      snd (add_entry_main today date_str c (Some h) r db) = db) \<and>
   (status db = Up \<and> date_str \<noteq> Malformed \<and> c \<noteq> [] \<and> 0 \<le> h \<and> h \<le> 24 \<longrightarrow>
      usage_log (snd (add_entry_main today date_str c (Some h) r db)) =
        usage_log db @
          [\<lparr>entry_id = auto_increment db,
            entry_date = (case date_str of Parsed p \<Rightarrow> p | _ \<Rightarrow> today),
            category = c, hours_spent = h, remarks = r\<rparr>]) \<and>
   (h \<le> 0 \<longrightarrow> snd (show_add_entry d c h r db) = db \<and>
      fst (show_add_entry d c h r db) =
        Inr (Error_shown ''Please enter a valid number of hours (greater than 0).''))"
proof (intro conjI impI)
  assume "status db = Up"
  then show "fst (add_entry d c h r db) = Inr (True, ''Entry added successfully!'')"
    by (simp add: add_entry_Up)
next
  assume "status db = Up"
  then show "usage_log (snd (add_entry d c h r db)) =
        usage_log db @ [\<lparr>entry_id = auto_increment db, entry_date = d, category = c,
                          hours_spent = h, remarks = r\<rparr>]"
    by (simp add: add_entry_Up usage_log_sql_insert)
next
  assume bad: "c = [] \<or> h < 0 \<or> 24 < h"
  then show "\<exists>msg. prompt_entry today date_str c (Some h) r = Inl msg"
    by (cases date_str) (auto simp: prompt_entry_def)
next
  assume bad: "c = [] \<or> h < 0 \<or> 24 < h"
  then show "snd (add_entry_main today date_str c (Some h) r db) = db"
    by (cases date_str) (auto simp: add_entry_main_def prompt_entry_def)
next
  assume ok: "status db = Up \<and> date_str \<noteq> Malformed \<and> c \<noteq> [] \<and> 0 \<le> h \<and> h \<le> 24"
  then show "usage_log (snd (add_entry_main today date_str c (Some h) r db)) =
        usage_log db @
          [\<lparr>entry_id = auto_increment db,
            entry_date = (case date_str of Parsed p \<Rightarrow> p | _ \<Rightarrow> today),
            category = c, hours_spent = h, remarks = r\<rparr>]"
    by (cases date_str)
      (auto simp: add_entry_main_def prompt_entry_def insert_entry_def usage_log_sql_insert)
next
  assume "h \<le> 0"
  then show "snd (show_add_entry d c h r db) = db"
    by (simp add: show_add_entry_def)
next
  assume "h \<le> 0"
  then show "fst (show_add_entry d c h r db) =
        Inr (Error_shown ''Please enter a valid number of hours (greater than 0).'')"
    by (simp add: show_add_entry_def)
qed

text \<open>The amended claim at 25 hours and at 0 hours, on the empty store.\<close>

theorem add_entry_stores_unchecked_prompt_entry_checks_witness:
  "status initial_database = Up \<and>
   fst (add_entry (2025, 11, 1) ''Study'' 25 '''' initial_database) =
     Inr (True, ''Entry added successfully!'') \<and>
   (\<exists>msg. prompt_entry (2025, 11, 3) (Parsed (2025, 11, 1)) ''Study'' (Some 25) '''' = Inl msg) \<and>
   snd (add_entry_main (2025, 11, 3) (Parsed (2025, 11, 1)) ''Study'' (Some 25) ''''
          initial_database) = initial_database \<and>
   usage_log (snd (add_entry (2025, 11, 1) ''Study'' 0 '''' initial_database)) =
     [\<lparr>entry_id = 1, entry_date = (2025, 11, 1), category = ''Study'',
       hours_spent = 0, remarks = ''''\<rparr>] \<and>
   usage_log (snd (add_entry_main (2025, 11, 3) (Parsed (2025, 11, 1)) ''Study'' (Some 0) ''''
                     initial_database)) =
     [\<lparr>entry_id = 1, entry_date = (2025, 11, 1), category = ''Study'',
       hours_spent = 0, remarks = ''''\<rparr>] \<and>
   snd (show_add_entry (2025, 11, 1) ''Study'' 0 '''' initial_database) = initial_database"
  using add_entry_stores_unchecked_prompt_entry_checks
      [of initial_database "(2025, 11, 1)" "''Study''" 25 "''''" "(2025, 11, 3)"
          "Parsed (2025, 11, 1)"]
    add_entry_stores_unchecked_prompt_entry_checks
      [of initial_database "(2025, 11, 1)" "''Study''" 0 "''''" "(2025, 11, 3)"
          "Parsed (2025, 11, 1)"]
  by (simp add: initial_database_def)

section \<open>Statistics\<close>

text \<open>
  Claim C2. Whenever the server answers, \<^verbatim>\<open>avg_daily_hours\<close> of \<^verbatim>\<open>get_statistics\<close> is
  the arithmetic mean of the per-day sums that \<^verbatim>\<open>get_daily_totals\<close> returns, one term
  per date; with no entries there is no day to average and the value is 0. On the store
  of the example it is 19/4 = 4.75, whereas the mean of the three raw values is 19/6.
\<close>

theorem avg_daily_hours_is_mean_of_daily_totals:
  "(status db = Up \<longrightarrow>
      (\<exists>daily stats. fst (get_daily_totals db) = Inr daily \<and>
         fst (get_statistics db) = Inr stats \<and>
         (daily \<noteq> [] \<longrightarrow>
            avg_daily_hours stats = sum_list (map snd daily) / of_nat (length daily)) \<and>
         (daily = [] \<longrightarrow> avg_daily_hours stats = 0))) \<and>
   (\<exists>stats. fst (get_statistics example_store) = Inr stats \<and>
      avg_daily_hours stats = 19 / 4 \<and>
      sum_list (map hours_spent (usage_log example_store)) /
        of_nat (length (usage_log example_store)) = 19 / 6)"
proof (intro conjI impI)
  assume up: "status db = Up"
  let ?g = "group_sum entry_date hours_spent (usage_log db)"
  have len: "length (order_by fst ?g) = length ?g"
    by (simp add: order_by_def)
  have nil: "order_by fst ?g = [] \<longleftrightarrow> ?g = []"
    using len by (metis length_0_conv)
  show "\<exists>daily stats. fst (get_daily_totals db) = Inr daily \<and>
         fst (get_statistics db) = Inr stats \<and>
         (daily \<noteq> [] \<longrightarrow>
            avg_daily_hours stats = sum_list (map snd daily) / of_nat (length daily)) \<and>
         (daily = [] \<longrightarrow> avg_daily_hours stats = 0)"
    using up
    by (simp add: get_daily_totals_def read_sql_Up get_statistics_Up sum_list_order_by
        len nil Let_def)
next
  show "\<exists>stats. fst (get_statistics example_store) = Inr stats \<and>
      avg_daily_hours stats = 19 / 4 \<and>
      sum_list (map hours_spent (usage_log example_store)) /
        of_nat (length (usage_log example_store)) = 19 / 6"
    by (simp add: example_statistics example_usage_log)
qed

text \<open>The general part at the store of the example: two days, 11/2 and 4 hours.\<close>

theorem avg_daily_hours_is_mean_of_daily_totals_witness:
  "status example_store = Up \<and>
   (\<exists>daily stats. fst (get_daily_totals example_store) = Inr daily \<and>
      fst (get_statistics example_store) = Inr stats \<and>
      daily = [((2025, 11, 1), 11 / 2), ((2025, 11, 2), 4)] \<and>
      avg_daily_hours stats = sum_list (map snd daily) / of_nat (length daily) \<and>
      avg_daily_hours stats = 19 / 4)"
  using avg_daily_hours_is_mean_of_daily_totals [of example_store] example_store_Up
    example_daily_totals example_statistics
  by auto

text \<open>
  Claim C9. On a store without entries, \<^verbatim>\<open>get_statistics\<close> returns, with no exception,
  zero total hours, zero entries, a zero daily average and no first and last date.
\<close>

theorem statistics_of_empty_store:
  assumes "status db = Up" and "usage_log db = []"
  shows "fst (get_statistics db) =
           Inr \<lparr>total_hours = 0, total_entries = 0, avg_daily_hours = 0,
                first_date = None, last_date = None\<rparr>"
  using assms by (simp add: get_statistics_Up group_sum_def)

theorem statistics_of_empty_store_witness:
  "status initial_database = Up \<and> usage_log initial_database = [] \<and>
   fst (get_statistics initial_database) =
     Inr \<lparr>total_hours = 0, total_entries = 0, avg_daily_hours = 0,
          first_date = None, last_date = None\<rparr>"
  using statistics_of_empty_store [of initial_database]
  by (simp add: initial_database_def)



section \<open>Totals per day and per category\<close>

text \<open>
  Claim C4. \<^verbatim>\<open>get_daily_totals\<close> returns one pair for each date that occurs in the
  table and for no other; the value of a pair is the sum of the hours of exactly the
  entries of that date; and the dates ascend strictly.
\<close>

theorem daily_totals_group_by_date:
  assumes "status db = Up"
  shows "\<exists>daily. fst (get_daily_totals db) = Inr daily \<and>
           distinct (map fst daily) \<and>
           set (map fst daily) = entry_date ` set (usage_log db) \<and>
           (\<forall>(d, t) \<in> set daily.
              t = sum_list (map hours_spent (filter (\<lambda>e. entry_date e = d) (usage_log db)))) \<and>
           sorted_wrt (<) (map fst daily)"
proof -
  let ?g = "group_sum entry_date hours_spent (usage_log db)"
  let ?daily = "order_by fst ?g"
  have res: "fst (get_daily_totals db) = Inr ?daily"
    using assms by (simp add: get_daily_totals_def read_sql_Up)
  have dist: "distinct (map fst ?daily)"
    using distinct_group_sum[of entry_date hours_spent "usage_log db"]
    by (simp add: order_by_def distinct_map)
  have keys: "set (map fst ?daily) = entry_date ` set (usage_log db)"
    by (simp add: order_by_def keys_group_sum)
  have vals: "\<forall>(d, t) \<in> set ?daily.
      t = sum_list (map hours_spent (filter (\<lambda>e. entry_date e = d) (usage_log db)))"
    by (auto simp: order_by_def dest: group_sum_value)
  have "sorted_wrt (<) (map fst ?daily)"
    using dist sorted_order_by[of fst ?g] by (simp add: strict_sorted_iff)
  with res dist keys vals show ?thesis by blast
qed

theorem daily_totals_group_by_date_witness:
  "status example_store = Up \<and>
   (\<exists>daily. fst (get_daily_totals example_store) = Inr daily \<and>
      daily = [((2025, 11, 1), 11 / 2), ((2025, 11, 2), 4)] \<and>
      distinct (map fst daily) \<and>
      set (map fst daily) = entry_date ` set (usage_log example_store) \<and>
      (\<forall>(d, t) \<in> set daily.
         t = sum_list (map hours_spent
               (filter (\<lambda>e. entry_date e = d) (usage_log example_store)))) \<and>
      sorted_wrt (<) (map fst daily))"
  using daily_totals_group_by_date [OF example_store_Up] example_store_Up
    example_daily_totals
  by auto



section \<open>Listing, deleting and the frame of the reads\<close>

text \<open>
  Claim C3. \<^verbatim>\<open>delete_entry\<close> returns \<^verbatim>\<open>True\<close> exactly when the table holds a row of
  that id, and \<^verbatim>\<open>False\<close>, with no exception, when it holds none; the rows of that id are
  removed and no other. The listing after the deletion has no entry of that id, a second
  deletion of the same id returns \<^verbatim>\<open>False\<close>, and the id that an \<^verbatim>\<open>add_entry\<close> has just
  assigned is deleted with \<^verbatim>\<open>True\<close>.
\<close>

theorem delete_entry_reports_removal:
  assumes "status db = Up"
  shows "fst (delete_entry i db) =
           Inr (if i \<in> entry_id ` set (usage_log db)
                then (True, ''Entry deleted successfully!'')
                else (False, ''Entry not found.'')) \<and>
         usage_log (snd (delete_entry i db)) =
           filter (\<lambda>e. entry_id e \<noteq> i) (usage_log db) \<and>
         (\<exists>listed. fst (get_all_entries (snd (delete_entry i db))) = Inr listed \<and>
            i \<notin> entry_id ` set listed \<and>
            set listed = {e \<in> set (usage_log db). entry_id e \<noteq> i}) \<and>
         fst (delete_entry i (snd (delete_entry i db))) = Inr (False, ''Entry not found.'') \<and>
         fst (delete_entry (auto_increment db) (snd (add_entry d c h r db))) =
           Inr (True, ''Entry deleted successfully!'')"
proof -
  let ?db' = "snd (delete_entry i db)"
  have up': "status ?db' = Up"
    using assms by (simp add: delete_entry_Up)
  have log': "usage_log ?db' = filter (\<lambda>e. entry_id e \<noteq> i) (usage_log db)"
    using assms by (simp add: delete_entry_Up)
  have first: "fst (delete_entry i db) =
           Inr (if i \<in> entry_id ` set (usage_log db)
                then (True, ''Entry deleted successfully!'')
                else (False, ''Entry not found.''))"
    using assms by (simp add: delete_entry_Up)
  have listed: "\<exists>listed. fst (get_all_entries ?db') = Inr listed \<and>
            i \<notin> entry_id ` set listed \<and>
            set listed = {e \<in> set (usage_log db). entry_id e \<noteq> i}"
    using up' log' by (auto simp: get_all_entries_def read_sql_Up order_by_desc_def)
  have second: "fst (delete_entry i ?db') = Inr (False, ''Entry not found.'')"
    using up' log' by (auto simp: delete_entry_Up)
  have added: "fst (delete_entry (auto_increment db) (snd (add_entry d c h r db))) =
           Inr (True, ''Entry deleted successfully!'')"
    using assms
    by (simp add: add_entry_Up delete_entry_Up status_sql_insert usage_log_sql_insert)
  from first log' listed second added show ?thesis by blast
qed

text \<open>On the store of the example: entry 2 is deleted once, and entry 7 never existed.\<close>

theorem delete_entry_reports_removal_witness:
  "status example_store = Up \<and>
   fst (delete_entry 2 example_store) = Inr (True, ''Entry deleted successfully!'') \<and>
   map entry_id (usage_log (snd (delete_entry 2 example_store))) = [1, 3] \<and>
   fst (delete_entry 2 (snd (delete_entry 2 example_store))) =
     Inr (False, ''Entry not found.'') \<and>
   fst (delete_entry 7 example_store) = Inr (False, ''Entry not found.'') \<and>
   fst (delete_entry 4 (snd (add_entry (2025, 11, 3) ''Work'' 5 '''' example_store))) =
     Inr (True, ''Entry deleted successfully!'')"
  using delete_entry_reports_removal
      [OF example_store_Up, of 2 "(2025, 11, 3)" "''Work''" 5 "''''"]
    delete_entry_reports_removal
      [OF example_store_Up, of 7 "(2025, 11, 3)" "''Work''" 5 "''''"]
    example_store_Up example_usage_log example_auto_increment
  by simp

text \<open>
  Claim C6. After \<^verbatim>\<open>add_entry\<close>, the listing of \<^verbatim>\<open>get_all_entries\<close> holds the new entry
  exactly once, as a row and by its id. This needs no bound on the hours and no
  non-empty category, so it holds for the valid inputs; the store is one whose ids lie
  below the counter, as they do in every store the program produces.
\<close>

theorem added_entry_listed_once:
  assumes "status db = Up" and "ids_below_counter db"
  shows "fst (add_entry d c h r db) = Inr (True, ''Entry added successfully!'') \<and>
         (\<exists>listed. fst (get_all_entries (snd (add_entry d c h r db))) = Inr listed \<and>
            count_list listed \<lparr>entry_id = auto_increment db, entry_date = d, category = c,
                                hours_spent = h, remarks = r\<rparr> = 1 \<and>
            length (filter (\<lambda>e. entry_id e = auto_increment db) listed) = 1)"
proof -
  let ?new = "\<lparr>entry_id = auto_increment db, entry_date = d, category = c,
               hours_spent = h, remarks = r\<rparr>"
  let ?rows = "usage_log db @ [?new]"
  let ?listed = "order_by_desc (\<lambda>e. (entry_date e, entry_id e)) ?rows"
  have fresh: "filter (\<lambda>e. entry_id e = auto_increment db) (usage_log db) = []"
    using assms(2) by (auto simp: ids_below_counter_def list_all_iff filter_empty_conv)
  have res: "fst (get_all_entries (snd (add_entry d c h r db))) = Inr ?listed"
    using assms(1)
    by (simp add: add_entry_Up get_all_entries_def read_sql_Up status_sql_insert
        usage_log_sql_insert)
  have "length (filter (\<lambda>e. entry_id e = auto_increment db) ?listed) =
          size (filter_mset (\<lambda>e. entry_id e = auto_increment db) (mset ?listed))"
    by (simp only: mset_filter[symmetric] size_mset)
  also have "\<dots> = length (filter (\<lambda>e. entry_id e = auto_increment db) ?rows)"
    by (simp only: mset_order_by_desc mset_filter[symmetric] size_mset)
  also have "\<dots> = 1"
    using fresh by simp
  finally have by_id: "length (filter (\<lambda>e. entry_id e = auto_increment db) ?listed) = 1" .
  have "?new \<notin> set (usage_log db)"
    using assms(2) by (auto simp: ids_below_counter_def list_all_iff)
  then have "count_list (usage_log db) ?new = 0"
    by (simp add: count_list_0_iff)
  moreover have "count_list ?listed ?new = count (mset ?rows) ?new"
    by (simp only: count_mset[symmetric] mset_order_by_desc)
  ultimately have once: "count_list ?listed ?new = 1"
    by (simp add: count_mset[symmetric] del: count_mset)
  from assms(1) res by_id once show ?thesis
    by (simp add: add_entry_Up)
qed

text \<open>On the store of the example, with an entry equal to an old one in all but the id.\<close>

theorem added_entry_listed_once_witness:
  "status example_store = Up \<and> ids_below_counter example_store \<and>
   (\<exists>listed. fst (get_all_entries
                (snd (add_entry (2025, 11, 2) ''Gaming'' 4 '''' example_store))) = Inr listed \<and>
      count_list listed \<lparr>entry_id = 4, entry_date = (2025, 11, 2), category = ''Gaming'',
                          hours_spent = 4, remarks = ''''\<rparr> = 1 \<and>
      length (filter (\<lambda>e. entry_id e = 4) listed) = 1)"
  using added_entry_listed_once
      [OF example_store_Up example_ids_below_counter, of "(2025, 11, 2)" "''Gaming''" 4 "''''"]
    example_store_Up example_ids_below_counter example_auto_increment
  by simp

text \<open>
  Claim C8. \<^verbatim>\<open>get_all_entries\<close> returns every entry of the table, the later date first
  and, within a date, the greater id first. \<^verbatim>\<open>get_date_range_entries\<close> returns exactly
  the entries whose date lies between the two bounds, both included, the later date
  first.
\<close>

theorem entries_listed_newest_first:
  assumes "status db = Up"
  shows "(\<exists>listed. fst (get_all_entries db) = Inr listed \<and>
            mset listed = mset (usage_log db) \<and>
            sorted_wrt (\<lambda>x y. entry_date y < entry_date x \<or>
                               (entry_date y = entry_date x \<and> entry_id y \<le> entry_id x)) listed) \<and>
         (\<exists>listed. fst (get_date_range_entries start_date end_date db) = Inr listed \<and>
            mset listed =
              mset (filter (\<lambda>e. start_date \<le> entry_date e \<and> entry_date e \<le> end_date)
                      (usage_log db)) \<and>
            sorted_wrt (\<lambda>x y. entry_date y \<le> entry_date x) listed)"
proof -
  have "sorted_wrt (\<lambda>x y. entry_date y < entry_date x \<or>
                               (entry_date y = entry_date x \<and> entry_id y \<le> entry_id x))
          (order_by_desc (\<lambda>e. (entry_date e, entry_id e)) (usage_log db))"
    using sorted_order_by_desc[of "\<lambda>e. (entry_date e, entry_id e)" "usage_log db"]
    by (simp only: lex_pair_le)
  then show ?thesis
    using assms
    by (simp add: get_all_entries_def get_date_range_entries_def read_sql_Up
        mset_order_by_desc sorted_order_by_desc)
qed

text \<open>On the store of the example, with the range of the single day 2025-11-01.\<close>

theorem entries_listed_newest_first_witness:
  "status example_store = Up \<and>
   (\<exists>listed. fst (get_all_entries example_store) = Inr listed \<and>
      map entry_id listed = [3, 2, 1] \<and> mset listed = mset (usage_log example_store)) \<and>
   (\<exists>listed. fst (get_date_range_entries (2025, 11, 1) (2025, 11, 1) example_store) =
                Inr listed \<and>
      map entry_id listed = [2, 1] \<and>
      sorted_wrt (\<lambda>x y. entry_date y \<le> entry_date x) listed)"
  using entries_listed_newest_first [OF example_store_Up, of "(2025, 11, 1)" "(2025, 11, 1)"]
    example_store_Up example_all_entries example_range_entries
  by auto

text \<open>
  Claim C10. The reads \<^verbatim>\<open>get_all_entries\<close>, \<^verbatim>\<open>get_date_range_entries\<close>,
  \<^verbatim>\<open>get_daily_totals\<close>, \<^verbatim>\<open>get_category_totals\<close> and \<^verbatim>\<open>get_statistics\<close> hand back
  the store they were given, whatever the server's status: the stored entries after the
  call are those before it.
\<close>

theorem reads_leave_store_unchanged:
  "snd (get_all_entries db) = db \<and>
   snd (get_date_range_entries start_date end_date db) = db \<and>
   snd (get_daily_totals db) = db \<and>
   snd (get_category_totals db) = db \<and>
   snd (get_statistics db) = db"
  by (simp add: get_all_entries_def get_date_range_entries_def get_daily_totals_def
      get_category_totals_def snd_read_sql get_statistics_def Let_def split: sum.splits)

end
